theory Spec2Isabelle
  imports Main "HOL-Library.Sublist" "HOL-Library.AList" "HOL-Library.Monad_Syntax"
begin

section \<open>Errors\<close>

text \<open>
  The two exceptions that \<^verbatim>\<open>util.py\<close> raises or lets through: \<^verbatim>\<open>TypeError\<close>
  (raised by \<^verbatim>\<open>generate_model_schema\<close>) and \<^verbatim>\<open>ValueError\<close> (raised by
  \<^verbatim>\<open>isoformat\<close> and \<^verbatim>\<open>isoparse\<close>). A function that can raise returns
  \<open>py_error + 'a\<close>, with \<open>Inl\<close> for the exception.
\<close>

datatype py_error = TypeError | ValueError

section \<open>The role gate: \<^verbatim>\<open>require_role\<close>\<close>

text \<open>
  The host's objects, as far as \<^verbatim>\<open>_wrapped\<close> reads them.
  \<^item> \<^verbatim>\<open>context.connection_record\<close> is \<^verbatim>\<open>None\<close> or a record whose
    \<^verbatim>\<open>their_role\<close> is a string or \<^verbatim>\<open>None\<close>.
  \<^item> \<^verbatim>\<open>context.message\<close> is the inbound message, of an arbitrary type \<open>'m\<close>.
  \<^item> A \<^verbatim>\<open>ProblemReport\<close> carries its two constructor arguments and the message
    it was correlated with by \<^verbatim>\<open>assign_thread_from\<close> (the host derives the thread
    identifiers from that message).
  \<^item> A responder is the list of replies handed to \<^verbatim>\<open>send_reply\<close>, oldest first.
    Replies other than problem reports (the wrapped function may send them) are
    \<open>Other_Message\<close>.
\<close>

record conn_record =
  their_role :: "string option"

record 'm request_context =
  connection_record :: "conn_record option"
  message :: 'm

record 'm problem_report =
  explain_ltxt :: string
  who_retries :: string
  thread_from :: "'m option"

datatype ('m, 'a) agent_message =
  ProblemReport "'m problem_report"
| Other_Message 'a

record ('m, 'a) responder =
  outbox :: "('m, 'a) agent_message list"

definition assign_thread_from :: "'m \<Rightarrow> 'm problem_report \<Rightarrow> 'm problem_report" where
  "assign_thread_from msg report = report\<lparr>thread_from := Some msg\<rparr>"

definition send_reply ::
  "('m, 'a) agent_message \<Rightarrow> ('m, 'a) responder \<Rightarrow> ('m, 'a) responder" where
  "send_reply msg responder = responder\<lparr>outbox := outbox responder @ [msg]\<rparr>"

text \<open>
  What the body of \<^verbatim>\<open>_wrapped\<close> does is recorded next to its result: one entry for
  each \<^verbatim>\<open>send_reply\<close> it awaits itself and one for each call of the wrapped
  function, with the arguments of the call. The wrapped function is not given this
  record, so it cannot write to it.
\<close>

datatype ('h, 'm, 'a) gate_event =
  Reply_Sent "'m problem_report"
| Func_Called 'h "'m request_context" "('m, 'a) responder"

text \<open>
  \<^verbatim>\<open>require_role(role)(func)\<close> is \<^verbatim>\<open>_wrapped\<close>; applied to
  \<^verbatim>\<open>(handler, context, responder)\<close> it returns the value returned (\<open>None\<close> for the
  bare \<^verbatim>\<open>return\<close>), the responder afterwards and the record of what it did.
  The wrapped function takes the same three arguments and returns its result with the
  responder as it leaves it.
\<close>

definition require_role ::
  "string option
   \<Rightarrow> ('h \<Rightarrow> 'm request_context \<Rightarrow> ('m, 'a) responder \<Rightarrow> 'r \<times> ('m, 'a) responder)
   \<Rightarrow> 'h \<Rightarrow> 'm request_context \<Rightarrow> ('m, 'a) responder
   \<Rightarrow> 'r option \<times> ('m, 'a) responder \<times> ('h, 'm, 'a) gate_event list" where
  "require_role role func handler context responder =
     (if (case connection_record context of
            None \<Rightarrow> True
          | Some c \<Rightarrow> their_role c \<noteq> role)
      then
        (let report = \<lparr>explain_ltxt =
                          ''This connection is not authorized to perform'' @
                          '' the requested action.'',
                        who_retries = ''none'',
                        thread_from = None\<rparr>;
             report = assign_thread_from (message context) report;
             responder = send_reply (ProblemReport report) responder
         in (None, responder, [Reply_Sent report]))
      else
        (let (result, responder') = func handler context responder
         in (Some result, responder', [Func_Called handler context responder])))"

definition admin_only ::
  "('h \<Rightarrow> 'm request_context \<Rightarrow> ('m, 'a) responder \<Rightarrow> 'r \<times> ('m, 'a) responder)
   \<Rightarrow> 'h \<Rightarrow> 'm request_context \<Rightarrow> ('m, 'a) responder
   \<Rightarrow> 'r option \<times> ('m, 'a) responder \<times> ('h, 'm, 'a) gate_event list" where
  "admin_only func = require_role (Some ''admin'') func"

text \<open>The two observations the claims count.\<close>

fun is_reply :: "('h, 'm, 'a) gate_event \<Rightarrow> bool" where
  "is_reply (Reply_Sent _) = True"
| "is_reply (Func_Called _ _ _) = False"

fun is_call :: "('h, 'm, 'a) gate_event \<Rightarrow> bool" where
  "is_call (Reply_Sent _) = False"
| "is_call (Func_Called _ _ _) = True"

section \<open>The message type factory: \<^verbatim>\<open>generate_model_schema\<close>\<close>






















section \<open>Timestamps: \<^verbatim>\<open>timestamp_utc_iso\<close> and \<^verbatim>\<open>datetime_from_iso\<close>\<close>

subsection \<open>Python's strings and numbers\<close>

text \<open>
  The decimal digits of a natural number (\<^verbatim>\<open>'%d' % n\<close>), and the zero-padded
  formats \<^verbatim>\<open>'%02d'\<close>, \<^verbatim>\<open>'%04d'\<close> and \<^verbatim>\<open>'{:06d}'\<close>: padding adds zeros on the left up
  to the width and never cuts a longer number.
\<close>

definition digit_char :: "nat \<Rightarrow> char" where
  "digit_char d = char_of (48 + d)"

definition is_digit :: "char \<Rightarrow> bool" where
  "is_digit c = (48 \<le> (of_char c :: nat) \<and> (of_char c :: nat) \<le> 57)"

definition digit_val :: "char \<Rightarrow> nat" where
  "digit_val c = of_char c - 48"

fun dec :: "nat \<Rightarrow> string" where
  "dec n = (if n < 10 then [digit_char n] else dec (n div 10) @ [digit_char (n mod 10)])"

declare dec.simps [simp del]

definition zero_pad :: "nat \<Rightarrow> nat \<Rightarrow> string" where
  "zero_pad w n = replicate (w - length (dec n)) (CHR ''0'') @ dec n"

text \<open>
  \<^verbatim>\<open>int(s)\<close> on a text of decimal digits, which is what the parser below hands
  it on the texts it reads; for any other text the model answers \<open>None\<close>
  (\<^verbatim>\<open>ValueError\<close>).
\<close>

definition int_of :: "string \<Rightarrow> nat option" where
  "int_of s =
     (if s \<noteq> [] \<and> list_all is_digit s
      then Some (fold (\<lambda>c n. 10 * n + digit_val c) s 0)
      else None)"

text \<open>
  \<^verbatim>\<open>s.replace(old, new, count)\<close>: the occurrences of \<^verbatim>\<open>old\<close> are found from the
  left and do not overlap; \<open>count\<close> is \<open>None\<close> when the argument is left out (every
  occurrence) and \<open>Some n\<close> for the first \<open>n\<close>. With an empty \<^verbatim>\<open>old\<close>, \<^verbatim>\<open>new\<close>
  goes before each character and at the end.
\<close>

fun replace_empty :: "string \<Rightarrow> nat option \<Rightarrow> string \<Rightarrow> string" where
  "replace_empty new count [] = (if count = Some 0 then [] else new)"
| "replace_empty new count (c # cs) =
     (if count = Some 0 then c # cs
      else new @ c # replace_empty new (map_option (\<lambda>n. n - 1) count) cs)"

function str_replace :: "string \<Rightarrow> string \<Rightarrow> nat option \<Rightarrow> string \<Rightarrow> string" where
  "str_replace old new count s =
     (if old = [] then replace_empty new count s
      else if count = Some 0 then s
      else (case s of
              [] \<Rightarrow> []
            | c # cs \<Rightarrow>
                if prefix old s
                then new @ str_replace old new (map_option (\<lambda>n. n - 1) count)
                             (drop (length old) s)
                else c # str_replace old new count cs))"
  by pat_completeness auto
termination
  by (relation "measure (\<lambda>(old, new, count, s). length s)") auto

declare str_replace.simps [simp del]

subsection \<open>\<^verbatim>\<open>datetime\<close> and \<^verbatim>\<open>isoformat\<close>\<close>

text \<open>
  A \<^verbatim>\<open>datetime\<close>. \<open>tzinfo\<close> is \<open>None\<close> for a naive value and \<open>Some off\<close> for a
  fixed offset of \<open>off\<close> minutes east of UTC; \<^verbatim>\<open>timezone.utc\<close> is \<open>Some 0\<close>.
  The constructor \<^verbatim>\<open>datetime(...)\<close> raises \<^verbatim>\<open>ValueError\<close> for a field out of range.
\<close>

record datetime =
  year :: nat
  month :: nat
  day :: nat
  hour :: nat
  minute :: nat
  second :: nat
  microsecond :: nat
  tzinfo :: "int option"

definition is_leap :: "nat \<Rightarrow> bool" where
  "is_leap y = (y mod 4 = 0 \<and> (y mod 100 \<noteq> 0 \<or> y mod 400 = 0))"

definition days_in_month :: "nat \<Rightarrow> nat \<Rightarrow> nat" where
  "days_in_month y m =
     (if m = 2 then (if is_leap y then 29 else 28)
      else if m = 4 \<or> m = 6 \<or> m = 9 \<or> m = 11 then 30
      else 31)"

definition valid_fields :: "nat \<Rightarrow> nat \<Rightarrow> nat \<Rightarrow> nat \<Rightarrow> nat \<Rightarrow> nat \<Rightarrow> nat \<Rightarrow> bool" where
  "valid_fields y m d hh mm ss us =
     (1 \<le> y \<and> y \<le> 9999 \<and> 1 \<le> m \<and> m \<le> 12 \<and> 1 \<le> d \<and> d \<le> days_in_month y m \<and>
      hh < 24 \<and> mm < 60 \<and> ss < 60 \<and> us < 1000000)"

definition valid_datetime :: "datetime \<Rightarrow> bool" where
  "valid_datetime dt =
     valid_fields (year dt) (month dt) (day dt) (hour dt) (minute dt) (second dt)
       (microsecond dt)"

definition datetime_new ::
  "nat \<Rightarrow> nat \<Rightarrow> nat \<Rightarrow> nat \<Rightarrow> nat \<Rightarrow> nat \<Rightarrow> nat \<Rightarrow> int option \<Rightarrow> py_error + datetime" where
  "datetime_new y m d hh mm ss us tz =
     (if valid_fields y m d hh mm ss us
      then Inr \<lparr>year = y, month = m, day = d, hour = hh, minute = mm, second = ss,
                microsecond = us, tzinfo = tz\<rparr>
      else Inl ValueError)"

text \<open>
  \<^verbatim>\<open>_format_time\<close> and \<^verbatim>\<open>_format_offset\<close> of the standard library, and
  \<^verbatim>\<open>datetime.isoformat(timespec=...)\<close> with the default separator \<^verbatim>\<open>'T'\<close>. An
  unknown \<^verbatim>\<open>timespec\<close> raises \<^verbatim>\<open>ValueError\<close>. Offsets are whole minutes.
\<close>

definition format_time :: "nat \<Rightarrow> nat \<Rightarrow> nat \<Rightarrow> nat \<Rightarrow> string \<Rightarrow> py_error + string" where
  "format_time hh mm ss us timespec =
     (let timespec = (if timespec = ''auto''
                      then (if us \<noteq> 0 then ''microseconds'' else ''seconds'')
                      else timespec);
          us = (if timespec = ''milliseconds'' then us div 1000 else us)
      in if timespec = ''hours'' then Inr (zero_pad 2 hh)
         else if timespec = ''minutes'' then Inr (zero_pad 2 hh @ '':'' @ zero_pad 2 mm)
         else if timespec = ''seconds''
           then Inr (zero_pad 2 hh @ '':'' @ zero_pad 2 mm @ '':'' @ zero_pad 2 ss)
         else if timespec = ''milliseconds''
           then Inr (zero_pad 2 hh @ '':'' @ zero_pad 2 mm @ '':'' @ zero_pad 2 ss @
                     ''.'' @ zero_pad 3 us)
         else if timespec = ''microseconds''
           then Inr (zero_pad 2 hh @ '':'' @ zero_pad 2 mm @ '':'' @ zero_pad 2 ss @
                     ''.'' @ zero_pad 6 us)
         else Inl ValueError)"

definition format_offset :: "int option \<Rightarrow> string" where
  "format_offset off =
     (case off of
        None \<Rightarrow> []
      | Some m \<Rightarrow>
          (if m < 0 then ''-'' else ''+'') @
          zero_pad 2 (nat \<bar>m\<bar> div 60) @ '':'' @ zero_pad 2 (nat \<bar>m\<bar> mod 60))"

definition format_date :: "datetime \<Rightarrow> string" where
  "format_date dt =
     zero_pad 4 (year dt) @ ''-'' @ zero_pad 2 (month dt) @ ''-'' @ zero_pad 2 (day dt)"

definition isoformat :: "datetime \<Rightarrow> string \<Rightarrow> py_error + string" where
  "isoformat dt timespec =
     (case format_time (hour dt) (minute dt) (second dt) (microsecond dt) timespec of
        Inl e \<Rightarrow> Inl e
      | Inr t \<Rightarrow> Inr (format_date dt @ ''T'' @ t @ format_offset (tzinfo dt)))"

subsection \<open>\<^verbatim>\<open>timestamp_utc_iso\<close>\<close>

text \<open>
  \<open>utcnow\<close> is the naive value that \<^verbatim>\<open>datetime.utcnow()\<close> returns; the argument
  \<open>timespec\<close> is \<open>None\<close> when the caller leaves it out, and the default is
  \<^verbatim>\<open>'seconds'\<close>.
\<close>

definition timestamp_utc_iso :: "datetime \<Rightarrow> string option \<Rightarrow> py_error + string" where
  "timestamp_utc_iso utcnow timespec =
     (let timespec = (case timespec of None \<Rightarrow> ''seconds'' | Some t \<Rightarrow> t)
      in case isoformat (utcnow\<lparr>tzinfo := Some 0\<rparr>) timespec of
           Inl e \<Rightarrow> Inl e
         | Inr s \<Rightarrow> Inr (str_replace ''+00:00'' ''Z'' None s))"

subsection \<open>\<^verbatim>\<open>dateutil.parser.isoparse\<close>\<close>

text \<open>
  The parser of the \<^verbatim>\<open>dateutil\<close> library, on the extended calendar form of
  ISO 8601: \<^verbatim>\<open>YYYY-MM-DD\<close>, alone or followed by one separator character (the
  default parser takes any) and a time \<^verbatim>\<open>hh\<close>, \<^verbatim>\<open>hh:mm\<close>, \<^verbatim>\<open>hh:mm:ss\<close> or
  \<^verbatim>\<open>hh:mm:ss.f\<close> (a fraction of one or more digits, of which six are kept), then
  nothing, \<^verbatim>\<open>Z\<close> (or \<^verbatim>\<open>z\<close>) or an offset \<^verbatim>\<open>+hh:mm\<close> / \<^verbatim>\<open>-hh:mm\<close>. A text
  with no zone gives a naive value, \<^verbatim>\<open>Z\<close> and a zero offset give UTC. The fields
  then go through the \<^verbatim>\<open>datetime\<close> constructor. The library is not part of the
  repository; this is its documented behaviour on that form. It reads further forms
  as well (basic format, week and ordinal dates, offsets without a colon, midnight as
  \<^verbatim>\<open>24:00\<close>): they are outside this model. For a text that is not of the
  form above the model answers \<^verbatim>\<open>ValueError\<close>, which then says only that.
\<close>

definition take_int :: "nat \<Rightarrow> string \<Rightarrow> (nat \<times> string) option" where
  "take_int w s =
     (if length s < w then None
      else map_option (\<lambda>n. (n, drop w s)) (int_of (take w s)))"

definition take_char :: "char \<Rightarrow> string \<Rightarrow> string option" where
  "take_char c s = (case s of [] \<Rightarrow> None | x # r \<Rightarrow> if x = c then Some r else None)"

definition parse_isodate :: "string \<Rightarrow> ((nat \<times> nat \<times> nat) \<times> string) option" where
  "parse_isodate s = do {
     (y, s) \<leftarrow> take_int 4 s;
     s \<leftarrow> take_char (CHR ''-'') s;
     (m, s) \<leftarrow> take_int 2 s;
     s \<leftarrow> take_char (CHR ''-'') s;
     (d, s) \<leftarrow> take_int 2 s;
     Some ((y, m, d), s)
   }"

definition parse_tzstr :: "string \<Rightarrow> int option" where
  "parse_tzstr s =
     (if s = ''Z'' \<or> s = ''z'' then Some 0
      else case s of
        [] \<Rightarrow> None
      | sign # r \<Rightarrow>
          if sign \<noteq> CHR ''+'' \<and> sign \<noteq> CHR ''-'' then None
          else do {
            (hh, r) \<leftarrow> take_int 2 r;
            r \<leftarrow> take_char (CHR '':'') r;
            (mm, r) \<leftarrow> take_int 2 r;
            if r \<noteq> [] \<or> 23 < hh \<or> 59 < mm then None
            else Some ((if sign = CHR ''-'' then - 1 else 1) * int (hh * 60 + mm))
          })"

definition take_fraction :: "string \<Rightarrow> (nat \<times> string) option" where
  "take_fraction s =
     (case s of
        [] \<Rightarrow> None
      | c # r \<Rightarrow>
          if (c = CHR ''.'' \<or> c = CHR '','') \<and> takeWhile is_digit r \<noteq> []
          then (let us_str = take 6 (takeWhile is_digit r)
                in map_option (\<lambda>n. (n * 10 ^ (6 - length us_str), dropWhile is_digit r))
                     (int_of us_str))
          else None)"

definition parse_zone ::
  "nat \<Rightarrow> nat \<Rightarrow> nat \<Rightarrow> nat \<Rightarrow> string \<Rightarrow> ((nat \<times> nat \<times> nat \<times> nat) \<times> int option) option" where
  "parse_zone hh mm ss us s =
     (if s = [] then Some ((hh, mm, ss, us), None)
      else map_option (\<lambda>tz. ((hh, mm, ss, us), Some tz)) (parse_tzstr s))"

definition parse_isotime :: "string \<Rightarrow> ((nat \<times> nat \<times> nat \<times> nat) \<times> int option) option" where
  "parse_isotime s = do {
     (hh, s) \<leftarrow> take_int 2 s;
     case take_char (CHR '':'') s of
       None \<Rightarrow> parse_zone hh 0 0 0 s
     | Some s \<Rightarrow> do {
         (mm, s) \<leftarrow> take_int 2 s;
         case take_char (CHR '':'') s of
           None \<Rightarrow> parse_zone hh mm 0 0 s
         | Some s \<Rightarrow> do {
             (ss, s) \<leftarrow> take_int 2 s;
             case take_fraction s of
               None \<Rightarrow> parse_zone hh mm ss 0 s
             | Some (us, s) \<Rightarrow> parse_zone hh mm ss us s
           }
       }
   }"

definition isoparse :: "string \<Rightarrow> py_error + datetime" where
  "isoparse dt_str =
     (case parse_isodate dt_str of
        None \<Rightarrow> Inl ValueError
      | Some ((y, m, d), rest) \<Rightarrow>
          (case rest of
             [] \<Rightarrow> datetime_new y m d 0 0 0 0 None
           | sep # time_str \<Rightarrow>
               (case parse_isotime time_str of
                  None \<Rightarrow> Inl ValueError
                | Some ((hh, mm, ss, us), tz) \<Rightarrow> datetime_new y m d hh mm ss us tz)))"

subsection \<open>\<^verbatim>\<open>datetime_from_iso\<close>\<close>

definition datetime_from_iso :: "string \<Rightarrow> py_error + datetime" where
  "datetime_from_iso timestamp =
     (let timestamp = str_replace '' '' ''T'' (Some 1) timestamp
      in isoparse timestamp)"

text \<open>
  Truncation of an instant to a precision, in the words of the specification: the
  fields below the precision are zero, milliseconds keep the whole thousands of the
  microseconds, and \<^verbatim>\<open>microseconds\<close> and \<^verbatim>\<open>auto\<close> keep everything.
\<close>

definition truncate_to :: "string \<Rightarrow> datetime \<Rightarrow> datetime" where
  "truncate_to p dt =
     (if p = ''hours'' then dt\<lparr>minute := 0, second := 0, microsecond := 0\<rparr>
      else if p = ''minutes'' then dt\<lparr>second := 0, microsecond := 0\<rparr>
      else if p = ''seconds'' then dt\<lparr>microsecond := 0\<rparr>
      else if p = ''milliseconds''
        then dt\<lparr>microsecond := (microsecond dt div 1000) * 1000\<rparr>
      else dt)"

definition supported_precisions :: "string list" where
  "supported_precisions =
     [''hours'', ''minutes'', ''seconds'', ''milliseconds'', ''microseconds'', ''auto'']"



section \<open>Properties of the role gate\<close>

text \<open>
  C1, as amended: when the connection record is absent or its \<^verbatim>\<open>their_role\<close> differs
  from the required role, the wrapper returns \<^verbatim>\<open>None\<close>, the responder has received
  exactly one more reply, a problem report with the text
  \<^verbatim>\<open>This connection is not authorized to perform the requested action.\<close>, the retry
  policy \<^verbatim>\<open>none\<close> and the thread of the inbound message, and the only thing the
  wrapper did is to send that reply: the wrapped function is not called, and the
  outcome does not depend on it. The absent record and the mismatch give the same
  outcome.
\<close>

theorem require_role_rejects:
  assumes "connection_record context = None \<or>
           (\<exists>c. connection_record context = Some c \<and> their_role c \<noteq> role)"
  shows "require_role role func handler context responder =
           (None,
            responder\<lparr>outbox := outbox responder @
               [ProblemReport
                  \<lparr>explain_ltxt =
                     ''This connection is not authorized to perform the requested action.'',
                   who_retries = ''none'',
                   thread_from = Some (message context)\<rparr>]\<rparr>,
            [Reply_Sent
               \<lparr>explain_ltxt =
                  ''This connection is not authorized to perform the requested action.'',
                who_retries = ''none'',
                thread_from = Some (message context)\<rparr>])"
  using assms
  by (auto simp: require_role_def assign_thread_from_def send_reply_def Let_def)

text \<open>
  The gate \<^verbatim>\<open>require_role('admin')\<close> on a connection whose role is \<^verbatim>\<open>member\<close>, and
  on a context with no connection record: the same single report, and the wrapped
  function (which would return \<open>True\<close>) is not called.
\<close>

theorem require_role_rejects_witness:
  "require_role (Some ''admin'') (\<lambda>h c r. (True, r)) ()
     \<lparr>connection_record = Some \<lparr>their_role = Some ''member''\<rparr>, message = (7::nat)\<rparr>
     \<lparr>outbox = ([] :: (nat, unit) agent_message list)\<rparr> =
     (None,
      \<lparr>outbox =
         [ProblemReport
            \<lparr>explain_ltxt =
               ''This connection is not authorized to perform the requested action.'',
             who_retries = ''none'', thread_from = Some 7\<rparr>]\<rparr>,
      [Reply_Sent
         \<lparr>explain_ltxt =
            ''This connection is not authorized to perform the requested action.'',
          who_retries = ''none'', thread_from = Some 7\<rparr>]) \<and>
   require_role (Some ''admin'') (\<lambda>h c r. (True, r)) ()
     \<lparr>connection_record = None, message = (7::nat)\<rparr>
     \<lparr>outbox = ([] :: (nat, unit) agent_message list)\<rparr> =
   require_role (Some ''admin'') (\<lambda>h c r. (True, r)) ()
     \<lparr>connection_record = Some \<lparr>their_role = Some ''member''\<rparr>, message = (7::nat)\<rparr>
     \<lparr>outbox = ([] :: (nat, unit) agent_message list)\<rparr>"
  using
    require_role_rejects
      [of "\<lparr>connection_record = Some \<lparr>their_role = Some ''member''\<rparr>, message = (7::nat)\<rparr>"
          "Some ''admin''" "\<lambda>h c r. (True, r)" "()"
          "\<lparr>outbox = ([] :: (nat, unit) agent_message list)\<rparr>"]
    require_role_rejects
      [of "\<lparr>connection_record = None, message = (7::nat)\<rparr>"
          "Some ''admin''" "\<lambda>h c r. (True, r)" "()"
          "\<lparr>outbox = ([] :: (nat, unit) agent_message list)\<rparr>"]
  by simp

text \<open>
  C1 as it is written names the text
  \<^verbatim>\<open>this connection is not authorized to perform the requested action\<close>. The report
  that the gate sends for a \<^verbatim>\<open>member\<close> connection under \<^verbatim>\<open>require_role('admin')\<close>
  is not the report with that text.
\<close>

theorem require_role_reject_text_counterexample:
  "outbox (fst (snd (require_role (Some ''admin'') (\<lambda>h c r. (True, r)) ()
     \<lparr>connection_record = Some \<lparr>their_role = Some ''member''\<rparr>, message = (7::nat)\<rparr>
     \<lparr>outbox = ([] :: (nat, unit) agent_message list)\<rparr>))) \<noteq>
   [ProblemReport
      \<lparr>explain_ltxt = ''this connection is not authorized to perform the requested action'',
       who_retries = ''none'', thread_from = Some 7\<rparr>]"
  by (simp add: require_role_def assign_thread_from_def send_reply_def Let_def)

text \<open>
  C2: when the connection record is present and its \<^verbatim>\<open>their_role\<close> equals the required
  role, the wrapper calls the wrapped function once, with the handler, context and
  responder it was given, returns the result of that call, and sends no reply itself:
  the responder afterwards is the one the wrapped function leaves.
\<close>

theorem require_role_forwards:
  assumes "connection_record context = Some c" and "their_role c = role"
  shows "require_role role func handler context responder =
           (Some (fst (func handler context responder)),
            snd (func handler context responder),
            [Func_Called handler context responder])"
  using assms
  by (simp add: require_role_def split: prod.splits)

text \<open>
  The gate \<^verbatim>\<open>require_role('admin')\<close> on an \<^verbatim>\<open>admin\<close> connection, around a function
  that returns \<open>True\<close> and leaves the responder alone.
\<close>

theorem require_role_forwards_witness:
  "require_role (Some ''admin'') (\<lambda>h c r. (True, r)) ()
     \<lparr>connection_record = Some \<lparr>their_role = Some ''admin''\<rparr>, message = (7::nat)\<rparr>
     \<lparr>outbox = ([] :: (nat, unit) agent_message list)\<rparr> =
     (Some True, \<lparr>outbox = []\<rparr>,
      [Func_Called ()
         \<lparr>connection_record = Some \<lparr>their_role = Some ''admin''\<rparr>, message = 7\<rparr>
         \<lparr>outbox = []\<rparr>])"
  using
    require_role_forwards
      [of "\<lparr>connection_record = Some \<lparr>their_role = Some ''admin''\<rparr>, message = (7::nat)\<rparr>"
          "\<lparr>their_role = Some ''admin''\<rparr>"
          "Some ''admin''" "\<lambda>h c r. (True, r)" "()"
          "\<lparr>outbox = ([] :: (nat, unit) agent_message list)\<rparr>"]
  by simp

text \<open>
  C3: every call of the wrapper takes exactly one of two paths. Either it calls the
  wrapped function once, with its own arguments, sends no reply and returns what that
  call returns; or it calls nothing, sends one problem report, which is the one reply
  added to the responder, and returns \<^verbatim>\<open>None\<close>.
\<close>

theorem require_role_one_path:
  "(case require_role role func handler context responder of
      (result, responder', events) \<Rightarrow>
        (length (filter is_call events) = 1 \<and> length (filter is_reply events) = 0 \<and>
         events = [Func_Called handler context responder] \<and>
         (result, responder') =
           (Some (fst (func handler context responder)),
            snd (func handler context responder))) \<or>
        (length (filter is_call events) = 0 \<and> length (filter is_reply events) = 1 \<and>
         result = None \<and>
         (\<exists>report. events = [Reply_Sent report] \<and>
                   outbox responder' = outbox responder @ [ProblemReport report])))"
  by (simp add: require_role_def assign_thread_from_def send_reply_def Let_def
      split: prod.splits option.splits)

section \<open>Properties of the factory\<close>















section \<open>Properties of the timestamp functions\<close>

subsection \<open>Digits and padding\<close>

lemma is_digit_digit_char: "d < 10 \<Longrightarrow> is_digit (digit_char d)"
  by (simp add: is_digit_def digit_char_def)

lemma digit_val_digit_char: "d < 10 \<Longrightarrow> digit_val (digit_char d) = d"
  by (simp add: digit_val_def digit_char_def)

lemma dec_digits: "list_all is_digit (dec n)"
  by (induction n rule: dec.induct) (subst dec.simps, simp add: is_digit_digit_char)

lemma dec_not_empty: "dec n \<noteq> []"
  by (subst dec.simps) simp

lemma fold_dec: "fold (\<lambda>c n. 10 * n + digit_val c) (dec n) 0 = n"
  by (induction n rule: dec.induct) (subst dec.simps, simp add: digit_val_digit_char)

lemma length_dec: "0 < w \<Longrightarrow> n < 10 ^ w \<Longrightarrow> length (dec n) \<le> w"
proof (induction n arbitrary: w rule: dec.induct)
  case (1 n)
  show ?case
  proof (cases "n < 10")
    case True
    with 1(2) show ?thesis by (subst dec.simps) simp
  next
    case False
    obtain v where w: "w = Suc v" using 1(2) by (cases w) auto
    have "0 < v" using False 1(3) w by (cases v) auto
    moreover have "n div 10 < 10 ^ v" using 1(3) w by (simp add: less_mult_imp_div_less mult.commute)
    ultimately have "length (dec (n div 10)) \<le> v" using 1(1) False by simp
    then show ?thesis using False w by (subst dec.simps) simp
  qed
qed

lemma zero_digit: "is_digit (CHR ''0'')" "digit_val (CHR ''0'') = 0"
  by (simp_all add: is_digit_def digit_val_def)

lemma zero_pad_digits: "list_all is_digit (zero_pad w n)"
  using dec_digits [of n] by (auto simp: zero_pad_def zero_digit list_all_iff)

lemma set_zero_pad: "c \<in> set (zero_pad w n) \<Longrightarrow> is_digit c"
  using zero_pad_digits [of w n] by (simp add: list_all_iff)

lemma length_zero_pad: "0 < w \<Longrightarrow> n < 10 ^ w \<Longrightarrow> length (zero_pad w n) = w"
  using length_dec [of w n] by (simp add: zero_pad_def)

lemma fold_zeros: "fold (\<lambda>c n. 10 * n + digit_val c) (replicate k (CHR ''0'')) 0 = 0"
  by (induction k) (simp_all add: zero_digit)

lemma fold_zero_pad: "fold (\<lambda>c n. 10 * n + digit_val c) (zero_pad w n) 0 = n"
  unfolding zero_pad_def fold_append comp_def fold_zeros by (rule fold_dec)

lemma int_of_zero_pad: "int_of (zero_pad w n) = Some n"
proof -
  have "zero_pad w n \<noteq> []" by (simp add: zero_pad_def dec_not_empty)
  then show ?thesis
    using zero_pad_digits [of w n] by (simp add: int_of_def fold_zero_pad)
qed

lemma take_int_zero_pad:
  "0 < w \<Longrightarrow> n < 10 ^ w \<Longrightarrow> take_int w (zero_pad w n @ r) = Some (n, r)"
  by (simp add: take_int_def length_zero_pad int_of_zero_pad)

subsection \<open>Replacement and formatting\<close>

lemma str_replace_Nil: "old \<noteq> [] \<Longrightarrow> str_replace old new count [] = []"
  by (subst str_replace.simps) simp

lemma str_replace_skip:
  "old \<noteq> [] \<Longrightarrow> count \<noteq> Some 0 \<Longrightarrow> \<not> prefix old (c # cs) \<Longrightarrow>
   str_replace old new count (c # cs) = c # str_replace old new count cs"
  by (subst str_replace.simps) simp

lemma str_replace_hit:
  "old \<noteq> [] \<Longrightarrow> count \<noteq> Some 0 \<Longrightarrow>
   str_replace old new count (old @ r) =
     new @ str_replace old new (map_option (\<lambda>n. n - 1) count) r"
proof -
  assume old: "old \<noteq> []" and count: "count \<noteq> Some 0"
  then obtain c cs where s: "old @ r = c # cs" by (cases old) auto
  have "prefix old (c # cs)" "drop (length old) (c # cs) = r"
    unfolding s [symmetric] by simp_all
  then show ?thesis
    unfolding s using old count by (subst str_replace.simps) simp
qed


lemma str_replace_absent:
  "x \<notin> set s \<Longrightarrow> count \<noteq> Some 0 \<Longrightarrow>
   str_replace (x # old) new count (s @ r) = s @ str_replace (x # old) new count r"
  by (induction s) (simp_all add: str_replace_skip)

lemma replace_offset_by_Z:
  "CHR ''+'' \<notin> set s \<Longrightarrow> str_replace ''+00:00'' ''Z'' None (s @ ''+00:00'') = s @ ''Z''"
  using str_replace_hit [of "''+00:00''" None "''Z''" "[]"]
  by (simp add: str_replace_absent str_replace_Nil)


lemma replace_no_space:
  "CHR '' '' \<notin> set s \<Longrightarrow> str_replace '' '' ''T'' (Some 1) s = s"
  using str_replace_absent [of "CHR '' ''" s "Some 1" "[]" "''T''" "[]"]
  by (simp add: str_replace_Nil)

lemma not_digit_chars:
  "\<not> is_digit (CHR ''+'')" "\<not> is_digit (CHR '' '')" "\<not> is_digit (CHR ''Z'')"
  "\<not> is_digit (CHR '':'')" "\<not> is_digit (CHR ''.'')" "\<not> is_digit (CHR ''-'')"
  "\<not> is_digit (CHR ''T'')" "\<not> is_digit (CHR ''z'')"
  by (simp_all add: is_digit_def)

lemma zero_pad_no_plus: "CHR ''+'' \<notin> set (zero_pad w n)" "CHR '' '' \<notin> set (zero_pad w n)"
  using set_zero_pad not_digit_chars by blast+

lemma format_date_chars: "CHR ''+'' \<notin> set (format_date dt)" "CHR '' '' \<notin> set (format_date dt)"
  by (simp_all add: format_date_def zero_pad_no_plus)

lemma format_time_chars:
  "format_time hh mm ss us p = Inr t \<Longrightarrow> CHR ''+'' \<notin> set t \<and> CHR '' '' \<notin> set t"
  by (auto simp: format_time_def Let_def zero_pad_no_plus split: if_splits)

lemma format_offset_utc: "format_offset (Some 0) = ''+00:00''"
  by code_simp

lemma format_date_tzinfo: "format_date (dt\<lparr>tzinfo := tz\<rparr>) = format_date dt"
  by (simp add: format_date_def)

lemma timestamp_utc_iso_eq:
  "format_time (hour utcnow) (minute utcnow) (second utcnow) (microsecond utcnow) p = Inr t \<Longrightarrow>
   timestamp_utc_iso utcnow (Some p) = Inr (format_date utcnow @ ''T'' @ t @ ''Z'')"
proof -
  assume t: "format_time (hour utcnow) (minute utcnow) (second utcnow) (microsecond utcnow) p = Inr t"
  have "CHR ''+'' \<notin> set (format_date utcnow @ ''T'' @ t)"
    using format_time_chars [OF t] by (simp add: format_date_chars)
  from replace_offset_by_Z [OF this] t show ?thesis
    by (simp add: timestamp_utc_iso_def isoformat_def format_offset_utc format_date_tzinfo)
qed

subsection \<open>Parsing what was formatted\<close>

lemma take_char_simps:
  "take_char c (c # r) = Some r"
  "x \<noteq> c \<Longrightarrow> take_char c (x # r) = None"
  by (simp_all add: take_char_def)

lemma parse_isodate_format:
  "year dt < 10000 \<Longrightarrow> month dt < 100 \<Longrightarrow> day dt < 100 \<Longrightarrow>
   parse_isodate (format_date dt @ r) = Some ((year dt, month dt, day dt), r)"
  by (simp add: parse_isodate_def format_date_def take_int_zero_pad take_char_simps)

lemma parse_zone_Z: "parse_zone hh mm ss us ''Z'' = Some ((hh, mm, ss, us), Some 0)"
  by (simp add: parse_zone_def parse_tzstr_def)

lemma take_fraction_Z: "take_fraction ''Z'' = None"
  by (simp add: take_fraction_def not_digit_chars)

lemma takeWhile_zero_pad:
  "takeWhile is_digit (zero_pad w n @ ''Z'') = zero_pad w n"
  "dropWhile is_digit (zero_pad w n @ ''Z'') = ''Z''"
  using set_zero_pad [of _ w n] by (simp_all add: takeWhile_append dropWhile_append not_digit_chars takeWhile_eq_all_conv)

lemma take_fraction_zero_pad:
  assumes "0 < w" "w \<le> 6" "f < 10 ^ w"
  shows "take_fraction (''.'' @ zero_pad w f @ ''Z'') = Some (f * 10 ^ (6 - w), ''Z'')"
proof -
  have l: "length (zero_pad w f) = w" using assms by (simp add: length_zero_pad)
  then have "zero_pad w f \<noteq> []" using assms by auto
  moreover have "take 6 (zero_pad w f) = zero_pad w f" using l assms by simp
  ultimately show ?thesis
    by (simp add: take_fraction_def takeWhile_zero_pad int_of_zero_pad l)
qed

lemma parse_isotime_hours:
  "hh < 100 \<Longrightarrow> parse_isotime (zero_pad 2 hh @ ''Z'') = Some ((hh, 0, 0, 0), Some 0)"
  by (simp add: parse_isotime_def take_int_zero_pad take_char_simps parse_zone_Z)

lemma parse_isotime_minutes:
  "hh < 100 \<Longrightarrow> mm < 100 \<Longrightarrow>
   parse_isotime (zero_pad 2 hh @ '':'' @ zero_pad 2 mm @ ''Z'') = Some ((hh, mm, 0, 0), Some 0)"
  by (simp add: parse_isotime_def take_int_zero_pad take_char_simps parse_zone_Z)

lemma parse_isotime_seconds:
  "hh < 100 \<Longrightarrow> mm < 100 \<Longrightarrow> ss < 100 \<Longrightarrow>
   parse_isotime (zero_pad 2 hh @ '':'' @ zero_pad 2 mm @ '':'' @ zero_pad 2 ss @ ''Z'') =
     Some ((hh, mm, ss, 0), Some 0)"
  by (simp add: parse_isotime_def take_int_zero_pad take_char_simps parse_zone_Z take_fraction_Z)

lemma parse_isotime_fraction:
  assumes "hh < 100" "mm < 100" "ss < 100" "0 < w" "w \<le> 6" "f < 10 ^ w"
  shows "parse_isotime (zero_pad 2 hh @ '':'' @ zero_pad 2 mm @ '':'' @ zero_pad 2 ss @
                        ''.'' @ zero_pad w f @ ''Z'') =
         Some ((hh, mm, ss, f * 10 ^ (6 - w)), Some 0)"
  using assms take_fraction_zero_pad [of w f]
  by (simp add: parse_isotime_def take_int_zero_pad take_char_simps parse_zone_Z)

lemma valid_datetime_bounds:
  "valid_datetime dt \<Longrightarrow>
   year dt < 10000 \<and> month dt < 100 \<and> day dt < 100 \<and> hour dt < 100 \<and> minute dt < 100 \<and>
   second dt < 100 \<and> microsecond dt < 1000000"
  by (auto simp: valid_datetime_def valid_fields_def days_in_month_def split: if_splits)

lemma isoparse_formatted:
  assumes "valid_datetime dt"
    and "parse_isotime (t @ ''Z'') = Some ((hh, mm, ss, us), Some 0)"
  shows "isoparse (format_date dt @ ''T'' @ t @ ''Z'') =
           datetime_new (year dt) (month dt) (day dt) hh mm ss us (Some 0)"
  using valid_datetime_bounds [OF assms(1)] assms(2)
    parse_isodate_format [of dt "''T'' @ t @ ''Z''"]
  by (simp add: isoparse_def)

lemma datetime_from_iso_formatted:
  assumes "format_time hh mm ss us p = Inr t"
  shows "datetime_from_iso (format_date dt @ ''T'' @ t @ ''Z'') =
           isoparse (format_date dt @ ''T'' @ t @ ''Z'')"
proof -
  have "CHR '' '' \<notin> set (format_date dt @ ''T'' @ t @ ''Z'')"
    using format_time_chars [OF assms] by (simp add: format_date_chars)
  from replace_no_space [OF this] show ?thesis
    by (simp add: datetime_from_iso_def)
qed

lemma roundtrip_at:
  assumes v: "valid_datetime utcnow"
    and f: "format_time (hour utcnow) (minute utcnow) (second utcnow) (microsecond utcnow) p = Inr t"
    and t: "parse_isotime (t @ ''Z'') = Some ((hh, mm, ss, us), Some 0)"
    and r: "datetime_new (year utcnow) (month utcnow) (day utcnow) hh mm ss us (Some 0) =
              Inr (truncate_to p (utcnow\<lparr>tzinfo := Some 0\<rparr>))"
  shows "\<exists>s. timestamp_utc_iso utcnow (Some p) = Inr s \<and>
             datetime_from_iso s = Inr (truncate_to p (utcnow\<lparr>tzinfo := Some 0\<rparr>))"
  using timestamp_utc_iso_eq [OF f] datetime_from_iso_formatted [OF f, of utcnow]
    isoparse_formatted [OF v t] r
  by simp

lemma ms_bound: "us < 1000000 \<Longrightarrow> us div 1000 < 1000" for us :: nat
  by arith

lemma roundtrip_hours:
  assumes v: "valid_datetime utcnow"
  shows "\<exists>s. timestamp_utc_iso utcnow (Some ''hours'') = Inr s \<and>
             datetime_from_iso s = Inr (truncate_to ''hours'' (utcnow\<lparr>tzinfo := Some 0\<rparr>))"
proof (rule roundtrip_at [OF v])
  show "format_time (hour utcnow) (minute utcnow) (second utcnow) (microsecond utcnow) ''hours'' =
          Inr (zero_pad 2 (hour utcnow))"
    by (simp add: format_time_def)
  show "parse_isotime (zero_pad 2 (hour utcnow) @ ''Z'') = Some ((hour utcnow, 0, 0, 0), Some 0)"
    using valid_datetime_bounds [OF v] by (simp add: parse_isotime_hours)
  show "datetime_new (year utcnow) (month utcnow) (day utcnow) (hour utcnow) 0 0 0 (Some 0) =
          Inr (truncate_to ''hours'' (utcnow\<lparr>tzinfo := Some 0\<rparr>))"
    using v by (simp add: datetime_new_def valid_datetime_def valid_fields_def truncate_to_def)
qed

lemma roundtrip_minutes:
  assumes v: "valid_datetime utcnow"
  shows "\<exists>s. timestamp_utc_iso utcnow (Some ''minutes'') = Inr s \<and>
             datetime_from_iso s = Inr (truncate_to ''minutes'' (utcnow\<lparr>tzinfo := Some 0\<rparr>))"
proof (rule roundtrip_at [OF v])
  show "format_time (hour utcnow) (minute utcnow) (second utcnow) (microsecond utcnow) ''minutes'' =
          Inr (zero_pad 2 (hour utcnow) @ '':'' @ zero_pad 2 (minute utcnow))"
    by (simp add: format_time_def)
  show "parse_isotime ((zero_pad 2 (hour utcnow) @ '':'' @ zero_pad 2 (minute utcnow)) @ ''Z'') =
          Some ((hour utcnow, minute utcnow, 0, 0), Some 0)"
    using valid_datetime_bounds [OF v] parse_isotime_minutes [of "hour utcnow" "minute utcnow"]
    by simp
  show "datetime_new (year utcnow) (month utcnow) (day utcnow) (hour utcnow) (minute utcnow) 0 0
          (Some 0) = Inr (truncate_to ''minutes'' (utcnow\<lparr>tzinfo := Some 0\<rparr>))"
    using v by (simp add: datetime_new_def valid_datetime_def valid_fields_def truncate_to_def)
qed

lemma roundtrip_seconds:
  assumes v: "valid_datetime utcnow"
  shows "\<exists>s. timestamp_utc_iso utcnow (Some ''seconds'') = Inr s \<and>
             datetime_from_iso s = Inr (truncate_to ''seconds'' (utcnow\<lparr>tzinfo := Some 0\<rparr>))"
proof (rule roundtrip_at [OF v])
  show "format_time (hour utcnow) (minute utcnow) (second utcnow) (microsecond utcnow) ''seconds'' =
          Inr (zero_pad 2 (hour utcnow) @ '':'' @ zero_pad 2 (minute utcnow) @ '':'' @
               zero_pad 2 (second utcnow))"
    by (simp add: format_time_def)
  show "parse_isotime ((zero_pad 2 (hour utcnow) @ '':'' @ zero_pad 2 (minute utcnow) @ '':'' @
               zero_pad 2 (second utcnow)) @ ''Z'') =
          Some ((hour utcnow, minute utcnow, second utcnow, 0), Some 0)"
    using valid_datetime_bounds [OF v]
      parse_isotime_seconds [of "hour utcnow" "minute utcnow" "second utcnow"]
    by simp
  show "datetime_new (year utcnow) (month utcnow) (day utcnow) (hour utcnow) (minute utcnow)
          (second utcnow) 0 (Some 0) =
          Inr (truncate_to ''seconds'' (utcnow\<lparr>tzinfo := Some 0\<rparr>))"
    using v by (simp add: datetime_new_def valid_datetime_def valid_fields_def truncate_to_def)
qed

lemma roundtrip_milliseconds:
  assumes v: "valid_datetime utcnow"
  shows "\<exists>s. timestamp_utc_iso utcnow (Some ''milliseconds'') = Inr s \<and>
             datetime_from_iso s =
               Inr (truncate_to ''milliseconds'' (utcnow\<lparr>tzinfo := Some 0\<rparr>))"
proof (rule roundtrip_at [OF v])
  have ms: "microsecond utcnow div 1000 < 1000"
    using valid_datetime_bounds [OF v] by (simp add: ms_bound)
  show "format_time (hour utcnow) (minute utcnow) (second utcnow) (microsecond utcnow)
          ''milliseconds'' =
          Inr (zero_pad 2 (hour utcnow) @ '':'' @ zero_pad 2 (minute utcnow) @ '':'' @
               zero_pad 2 (second utcnow) @ ''.'' @ zero_pad 3 (microsecond utcnow div 1000))"
    by (simp add: format_time_def)
  show "parse_isotime ((zero_pad 2 (hour utcnow) @ '':'' @ zero_pad 2 (minute utcnow) @ '':'' @
               zero_pad 2 (second utcnow) @ ''.'' @ zero_pad 3 (microsecond utcnow div 1000)) @
               ''Z'') =
          Some ((hour utcnow, minute utcnow, second utcnow,
                 microsecond utcnow div 1000 * 1000), Some 0)"
    using valid_datetime_bounds [OF v] ms
      parse_isotime_fraction [of "hour utcnow" "minute utcnow" "second utcnow" 3
        "microsecond utcnow div 1000"]
    by simp
  show "datetime_new (year utcnow) (month utcnow) (day utcnow) (hour utcnow) (minute utcnow)
          (second utcnow) (microsecond utcnow div 1000 * 1000) (Some 0) =
          Inr (truncate_to ''milliseconds'' (utcnow\<lparr>tzinfo := Some 0\<rparr>))"
    using v ms by (simp add: datetime_new_def valid_datetime_def valid_fields_def truncate_to_def)
qed

lemma roundtrip_microseconds:
  assumes v: "valid_datetime utcnow"
  shows "\<exists>s. timestamp_utc_iso utcnow (Some ''microseconds'') = Inr s \<and>
             datetime_from_iso s =
               Inr (truncate_to ''microseconds'' (utcnow\<lparr>tzinfo := Some 0\<rparr>))"
proof (rule roundtrip_at [OF v])
  show "format_time (hour utcnow) (minute utcnow) (second utcnow) (microsecond utcnow)
          ''microseconds'' =
          Inr (zero_pad 2 (hour utcnow) @ '':'' @ zero_pad 2 (minute utcnow) @ '':'' @
               zero_pad 2 (second utcnow) @ ''.'' @ zero_pad 6 (microsecond utcnow))"
    by (simp add: format_time_def)
  show "parse_isotime ((zero_pad 2 (hour utcnow) @ '':'' @ zero_pad 2 (minute utcnow) @ '':'' @
               zero_pad 2 (second utcnow) @ ''.'' @ zero_pad 6 (microsecond utcnow)) @ ''Z'') =
          Some ((hour utcnow, minute utcnow, second utcnow, microsecond utcnow), Some 0)"
    using valid_datetime_bounds [OF v]
      parse_isotime_fraction [of "hour utcnow" "minute utcnow" "second utcnow" 6
        "microsecond utcnow"]
    by simp
  show "datetime_new (year utcnow) (month utcnow) (day utcnow) (hour utcnow) (minute utcnow)
          (second utcnow) (microsecond utcnow) (Some 0) =
          Inr (truncate_to ''microseconds'' (utcnow\<lparr>tzinfo := Some 0\<rparr>))"
    using v by (simp add: datetime_new_def valid_datetime_def valid_fields_def truncate_to_def)
qed

lemma format_time_auto:
  "format_time hh mm ss us ''auto'' =
     format_time hh mm ss us (if us \<noteq> 0 then ''microseconds'' else ''seconds'')"
  by (simp add: format_time_def)

lemma timestamp_auto:
  "timestamp_utc_iso utcnow (Some ''auto'') =
     timestamp_utc_iso utcnow
       (Some (if microsecond utcnow \<noteq> 0 then ''microseconds'' else ''seconds''))"
  by (simp add: timestamp_utc_iso_def isoformat_def format_time_auto)

lemma roundtrip_auto:
  assumes v: "valid_datetime utcnow"
  shows "\<exists>s. timestamp_utc_iso utcnow (Some ''auto'') = Inr s \<and>
             datetime_from_iso s = Inr (truncate_to ''auto'' (utcnow\<lparr>tzinfo := Some 0\<rparr>))"
proof (cases "microsecond utcnow = 0")
  case True
  then have "truncate_to ''auto'' (utcnow\<lparr>tzinfo := Some 0\<rparr>) =
             truncate_to ''seconds'' (utcnow\<lparr>tzinfo := Some 0\<rparr>)"
    by (simp add: truncate_to_def)
  with roundtrip_seconds [OF v] True show ?thesis by (simp add: timestamp_auto)
next
  case False
  have "truncate_to ''auto'' (utcnow\<lparr>tzinfo := Some 0\<rparr>) =
        truncate_to ''microseconds'' (utcnow\<lparr>tzinfo := Some 0\<rparr>)"
    by (simp add: truncate_to_def)
  with roundtrip_microseconds [OF v] False show ?thesis by (simp add: timestamp_auto)
qed


subsection \<open>Zone designators\<close>















lemma no_offset_form:
  assumes "timestamp_utc_iso utcnow p = Inr s"
  shows "\<not> sublist ''+00:00'' s"
proof
  assume sub: "sublist ''+00:00'' s"
  obtain q where q: "timestamp_utc_iso utcnow (Some q) = Inr s"
    using assms by (cases p) (auto simp: timestamp_utc_iso_def)
  then obtain t where
    t: "format_time (hour utcnow) (minute utcnow) (second utcnow) (microsecond utcnow) q = Inr t"
    by (auto simp: timestamp_utc_iso_def isoformat_def split: sum.splits)
  from timestamp_utc_iso_eq [OF t] q have s: "s = format_date utcnow @ ''T'' @ t @ ''Z''" by simp
  have "CHR ''+'' \<notin> set s"
    unfolding s using format_time_chars [OF t] by (simp add: format_date_chars)
  moreover have "CHR ''+'' \<in> set s" using set_mono_sublist [OF sub] by auto
  ultimately show False by simp
qed

subsection \<open>The claims\<close>

text \<open>
  C7: for each of the six precisions \<^verbatim>\<open>timestamp_utc_iso\<close> returns the date and time
  of \<open>utcnow\<close> in the extended ISO 8601 form, with the fields down to the precision
  and nothing below it (whole milliseconds for \<^verbatim>\<open>milliseconds\<close>; for \<^verbatim>\<open>auto\<close>
  the microseconds when they are not zero and the seconds otherwise), ending in
  \<^verbatim>\<open>Z\<close>; the precision left out means \<^verbatim>\<open>seconds\<close>; and no text that it returns
  contains \<^verbatim>\<open>+00:00\<close>.
\<close>

theorem timestamp_utc_iso_format:
  "timestamp_utc_iso utcnow (Some ''hours'') =
     Inr (format_date utcnow @ ''T'' @ zero_pad 2 (hour utcnow) @ ''Z'') \<and>
   timestamp_utc_iso utcnow (Some ''minutes'') =
     Inr (format_date utcnow @ ''T'' @ zero_pad 2 (hour utcnow) @ '':'' @
          zero_pad 2 (minute utcnow) @ ''Z'') \<and>
   timestamp_utc_iso utcnow (Some ''seconds'') =
     Inr (format_date utcnow @ ''T'' @ zero_pad 2 (hour utcnow) @ '':'' @
          zero_pad 2 (minute utcnow) @ '':'' @ zero_pad 2 (second utcnow) @ ''Z'') \<and>
   timestamp_utc_iso utcnow (Some ''milliseconds'') =
     Inr (format_date utcnow @ ''T'' @ zero_pad 2 (hour utcnow) @ '':'' @
          zero_pad 2 (minute utcnow) @ '':'' @ zero_pad 2 (second utcnow) @ ''.'' @
          zero_pad 3 (microsecond utcnow div 1000) @ ''Z'') \<and>
   timestamp_utc_iso utcnow (Some ''microseconds'') =
     Inr (format_date utcnow @ ''T'' @ zero_pad 2 (hour utcnow) @ '':'' @
          zero_pad 2 (minute utcnow) @ '':'' @ zero_pad 2 (second utcnow) @ ''.'' @
          zero_pad 6 (microsecond utcnow) @ ''Z'') \<and>
   timestamp_utc_iso utcnow (Some ''auto'') =
     timestamp_utc_iso utcnow
       (Some (if microsecond utcnow \<noteq> 0 then ''microseconds'' else ''seconds'')) \<and>
   timestamp_utc_iso utcnow None = timestamp_utc_iso utcnow (Some ''seconds'') \<and>
   (\<forall>p s. timestamp_utc_iso utcnow p = Inr s \<longrightarrow> \<not> sublist ''+00:00'' s)"
proof -
  let ?ft = "format_time (hour utcnow) (minute utcnow) (second utcnow) (microsecond utcnow)"
  have "?ft ''hours'' = Inr (zero_pad 2 (hour utcnow))"
    by (simp add: format_time_def)
  note h = timestamp_utc_iso_eq [OF this]
  have "?ft ''minutes'' = Inr (zero_pad 2 (hour utcnow) @ '':'' @ zero_pad 2 (minute utcnow))"
    by (simp add: format_time_def)
  note m = timestamp_utc_iso_eq [OF this]
  have "?ft ''seconds'' = Inr (zero_pad 2 (hour utcnow) @ '':'' @ zero_pad 2 (minute utcnow) @
          '':'' @ zero_pad 2 (second utcnow))"
    by (simp add: format_time_def)
  note s = timestamp_utc_iso_eq [OF this]
  have "?ft ''milliseconds'' = Inr (zero_pad 2 (hour utcnow) @ '':'' @
          zero_pad 2 (minute utcnow) @ '':'' @ zero_pad 2 (second utcnow) @ ''.'' @
          zero_pad 3 (microsecond utcnow div 1000))"
    by (simp add: format_time_def)
  note ms = timestamp_utc_iso_eq [OF this]
  have "?ft ''microseconds'' = Inr (zero_pad 2 (hour utcnow) @ '':'' @
          zero_pad 2 (minute utcnow) @ '':'' @ zero_pad 2 (second utcnow) @ ''.'' @
          zero_pad 6 (microsecond utcnow))"
    by (simp add: format_time_def)
  note us = timestamp_utc_iso_eq [OF this]
  have d: "timestamp_utc_iso utcnow None = timestamp_utc_iso utcnow (Some ''seconds'')"
    by (simp add: timestamp_utc_iso_def)
  have n: "\<forall>p s. timestamp_utc_iso utcnow p = Inr s \<longrightarrow> \<not> sublist ''+00:00'' s"
    using no_offset_form by blast
  from h m s ms us timestamp_auto [of utcnow] d n show ?thesis by simp
qed

text \<open>
  The instant 2020-02-29 07:05:09.123456 at the precision \<^verbatim>\<open>milliseconds\<close>.
\<close>

theorem timestamp_utc_iso_format_witness:
  "timestamp_utc_iso
     \<lparr>year = 2020, month = 2, day = 29, hour = 7, minute = 5, second = 9,
      microsecond = 123456, tzinfo = None\<rparr> (Some ''milliseconds'') =
     Inr ''2020-02-29T07:05:09.123Z'' \<and>
   \<not> sublist ''+00:00'' ''2020-02-29T07:05:09.123Z''"
proof -
  let ?now = "\<lparr>year = 2020, month = 2, day = 29, hour = 7, minute = 5, second = 9,
      microsecond = 123456, tzinfo = None\<rparr>"
  have z: "zero_pad 4 2020 = ''2020''" "zero_pad 2 2 = ''02''" "zero_pad 2 29 = ''29''"
    "zero_pad 2 7 = ''07''" "zero_pad 2 5 = ''05''" "zero_pad 2 9 = ''09''"
    "zero_pad 3 123 = ''123''"
    by code_simp+
  have e: "format_date ?now @ ''T'' @ zero_pad 2 (hour ?now) @ '':'' @
          zero_pad 2 (minute ?now) @ '':'' @ zero_pad 2 (second ?now) @ ''.'' @
          zero_pad 3 (microsecond ?now div 1000) @ ''Z'' = ''2020-02-29T07:05:09.123Z''"
    by (simp add: format_date_def z)
  from timestamp_utc_iso_format [of ?now] e
  have a: "timestamp_utc_iso ?now (Some ''milliseconds'') = Inr ''2020-02-29T07:05:09.123Z''"
    by simp
  from timestamp_utc_iso_format [of ?now] a
  have "\<not> sublist ''+00:00'' ''2020-02-29T07:05:09.123Z''" by blast
  with a show ?thesis by simp
qed

text \<open>
  C8: for a valid \<open>utcnow\<close> and each of the six precisions, \<^verbatim>\<open>timestamp_utc_iso\<close>
  returns a text, and \<^verbatim>\<open>datetime_from_iso\<close> of that text succeeds with the instant
  \<open>utcnow\<close> in UTC truncated to the precision.
\<close>

theorem timestamp_round_trip:
  assumes "valid_datetime utcnow" and "p \<in> set supported_precisions"
  shows "\<exists>s. timestamp_utc_iso utcnow (Some p) = Inr s \<and>
             datetime_from_iso s = Inr (truncate_to p (utcnow\<lparr>tzinfo := Some 0\<rparr>))"
  using assms(2) roundtrip_hours [OF assms(1)] roundtrip_minutes [OF assms(1)]
    roundtrip_seconds [OF assms(1)] roundtrip_milliseconds [OF assms(1)]
    roundtrip_microseconds [OF assms(1)] roundtrip_auto [OF assms(1)]
  unfolding supported_precisions_def by (elim disjE | simp only: set_simps insert_iff empty_iff)+

text \<open>
  The same instant: the text at \<^verbatim>\<open>milliseconds\<close> reads back as 07:05:09.123000 UTC.
\<close>

theorem timestamp_round_trip_witness:
  "valid_datetime
     \<lparr>year = 2020, month = 2, day = 29, hour = 7, minute = 5, second = 9,
      microsecond = 123456, tzinfo = None\<rparr> \<and>
   ''milliseconds'' \<in> set supported_precisions \<and>
   (\<exists>s. timestamp_utc_iso
          \<lparr>year = 2020, month = 2, day = 29, hour = 7, minute = 5, second = 9,
           microsecond = 123456, tzinfo = None\<rparr> (Some ''milliseconds'') = Inr s \<and>
        datetime_from_iso s =
          Inr \<lparr>year = 2020, month = 2, day = 29, hour = 7, minute = 5, second = 9,
               microsecond = 123000, tzinfo = Some 0\<rparr>)"
proof -
  let ?now = "\<lparr>year = 2020, month = 2, day = 29, hour = 7, minute = 5, second = 9,
      microsecond = 123456, tzinfo = None\<rparr>"
  have v: "valid_datetime ?now"
    by (simp add: valid_datetime_def valid_fields_def days_in_month_def is_leap_def)
  have p: "''milliseconds'' \<in> set supported_precisions"
    by (simp add: supported_precisions_def)
  have t: "truncate_to ''milliseconds'' (?now\<lparr>tzinfo := Some 0\<rparr>) =
             \<lparr>year = 2020, month = 2, day = 29, hour = 7, minute = 5, second = 9,
              microsecond = 123000, tzinfo = Some 0\<rparr>"
    by (simp add: truncate_to_def)
  from timestamp_round_trip [OF v p] v p show ?thesis
    unfolding t by simp
qed




end
